theory Spec2Isabelle
  imports Main "HOL-Library.Sublist"
begin

section \<open>Strings\<close>

text \<open>
  Python strings are modelled as \<open>string\<close> (lists of bytes). The column metadata that
  MySQL returns (type strings, default literals) is ASCII; \<open>str.lower\<close> and
  \<open>str.upper\<close> are modelled on ASCII letters and leave every other byte unchanged.
\<close>

definition lower_char :: "char \<Rightarrow> char" where
  "lower_char c =
     (let n = (of_char c :: nat) in if 65 \<le> n \<and> n \<le> 90 then char_of (n + 32) else c)"

definition upper_char :: "char \<Rightarrow> char" where
  "upper_char c =
     (let n = (of_char c :: nat) in if 97 \<le> n \<and> n \<le> 122 then char_of (n - 32) else c)"

definition lower :: "string \<Rightarrow> string" where
  "lower s = map lower_char s"

definition upper :: "string \<Rightarrow> string" where
  "upper s = map upper_char s"

text \<open>\<open>contains sub s\<close> is Python's \<open>sub in s\<close> on strings.\<close>

fun contains :: "string \<Rightarrow> string \<Rightarrow> bool" where
  "contains sub [] = (sub = [])"
| "contains sub (c # cs) = (prefix sub (c # cs) \<or> contains sub cs)"

text \<open>The single-quote character of the f-string \<open>f" DEFAULT '{...}'"\<close>.\<close>

definition quote :: char where
  "quote = CHR 0x27"

section \<open>Column descriptors\<close>

text \<open>
  A row of \<open>SHOW COLUMNS FROM t\<close> fetched with a dictionary cursor: the keys
  \<open>Field\<close>, \<open>Type\<close>, \<open>Null\<close>, \<open>Key\<close>, \<open>Default\<close>, \<open>Extra\<close>.
  \<open>Default\<close> is \<open>None\<close> when the column has no default.
\<close>

record column =
  col_Field :: string
  col_Type :: string
  col_Null :: string
  col_Key :: string
  col_Default :: "string option"
  col_Extra :: string

section \<open>generate_alter_statements\<close>

text \<open>The body of the loop of \<open>generate_alter_statements\<close>: the statement built for one column.\<close>

definition default_clause :: "column \<Rightarrow> string" where
  "default_clause col =
     (case col_Default col of
        None \<Rightarrow> []
      | Some d \<Rightarrow>
          if lower (col_Type col) \<in> {''timestamp'', ''datetime''} \<and> upper d = ''CURRENT_TIMESTAMP''
          then '' DEFAULT CURRENT_TIMESTAMP''
          else if contains ''char'' (lower (col_Type col)) \<or> contains ''text'' (lower (col_Type col))
          then '' DEFAULT '' @ [quote] @ d @ [quote]
          else '' DEFAULT '' @ d)"

definition add_column_stmt :: "string \<Rightarrow> column \<Rightarrow> string" where
  "add_column_stmt table_name col =
     (let stmt = ''ALTER TABLE '' @ table_name @ '' ADD COLUMN '' @ col_Field col @ '' '' @ col_Type col;
          stmt = (if col_Null col = ''NO'' then stmt @ '' NOT NULL'' else stmt)
      in stmt @ default_clause col)"

text \<open>The loop over \<open>target_cols\<close>, with the list \<open>alter_statements\<close> as accumulator.\<close>

primrec add_missing_columns :: "string \<Rightarrow> string set \<Rightarrow> column list \<Rightarrow> string list \<Rightarrow> string list" where
  "add_missing_columns table_name source_col_names [] alter_statements = alter_statements"
| "add_missing_columns table_name source_col_names (col # cols) alter_statements =
     add_missing_columns table_name source_col_names cols
       (if col_Field col \<notin> source_col_names
        then alter_statements @ [add_column_stmt table_name col]
        else alter_statements)"

definition generate_alter_statements :: "string \<Rightarrow> column list \<Rightarrow> column list \<Rightarrow> string list" where
  "generate_alter_statements table_name source_cols target_cols =
     (let source_col_names = set (map col_Field source_cols)
      in add_missing_columns table_name source_col_names target_cols [])"

section \<open>Case-insensitive comparison\<close>





section \<open>The two database servers\<close>

text \<open>
  The connections are external: a cursor executes a statement and either raises
  \<open>mysql.connector.Error\<close> or succeeds, and the connection commits or rolls back. What
  the comparator asks of the source connection is a \<open>request\<close>; an \<open>event\<close> pairs a
  request with its outcome, \<open>None\<close> for success and \<open>Some msg\<close> for an \<open>Error\<close> whose
  \<open>str(e)\<close> is \<open>msg\<close>. The history of a run is the list of its events, oldest first.
\<close>

datatype request = Execute string | Commit | Rollback

type_synonym event = "request \<times> string option"

datatype connection = Source | Target

text \<open>A row of the \<open>KEY_COLUMN_USAGE\<close> query:
  \<open>(COLUMN_NAME, REFERENCED_TABLE_NAME, REFERENCED_COLUMN_NAME, CONSTRAINT_NAME)\<close>.\<close>

type_synonym fk_row = "string \<times> string \<times> string \<times> string"

text \<open>
  A \<open>world\<close> fixes how the environment answers. The source server may answer a request
  differently as the run proceeds, so its answers depend on the history so far. The target
  server is only read. A query answer is \<open>Inl msg\<close> when the query raises \<open>Error\<close> and
  \<open>Inr rows\<close> otherwise; rows have the shape the code destructures. The two \<open>re.sub\<close>
  calls of \<open>sync_structures\<close>, which delete the foreign-key clauses and the
  \<open>AUTO_INCREMENT=n\<close> option by regular expression, are parameters of the model: no
  property below depends on what they return. Cursor creation is taken to succeed.
\<close>

record world =
  src_connect :: bool
  tgt_connect :: bool
  src_show_tables :: "string + string list"
  tgt_show_tables :: "string + string list"
  src_show_columns :: "string \<Rightarrow> string + column list"
  tgt_show_columns :: "string \<Rightarrow> string + column list"
  src_answer :: "event list \<Rightarrow> request \<Rightarrow> string option"
  src_constraints :: "event list \<Rightarrow> string list"
  src_index_count :: "event list \<Rightarrow> int"
  tgt_show_create_table :: "string \<Rightarrow> string + string"
  tgt_key_column_usage :: "string \<Rightarrow> string + fk_row list"
  tgt_referential_rules :: "string \<Rightarrow> string + (string \<times> string) option"
  re_sub_foreign_keys :: "string \<Rightarrow> string"
  re_sub_auto_increment :: "string \<Rightarrow> string"

text \<open>One request on the source connection: the outcome, and the history extended by it.\<close>

definition run :: "world \<Rightarrow> event list \<Rightarrow> request \<Rightarrow> string option \<times> event list" where
  "run w h r = (src_answer w h r, h @ [(r, src_answer w h r)])"

text \<open>Requests issued one after the other, up to the first that raises.\<close>

fun run_all :: "world \<Rightarrow> request list \<Rightarrow> event list \<Rightarrow> string option \<times> event list" where
  "run_all w [] h = (None, h)"
| "run_all w (r # rs) h =
     (case run w h r of
        (Some e, h') \<Rightarrow> (Some e, h')
      | (None, h') \<Rightarrow> run_all w rs h')"

text \<open>\<open>try: self.source_conn.rollback() except: pass\<close>: a failure of the rollback is dropped.\<close>

definition rollback :: "world \<Rightarrow> event list \<Rightarrow> event list" where
  "rollback w h = snd (run w h Rollback)"

section \<open>connect, get_tables, get_table_structure, compare_structures\<close>

definition connect :: "world \<Rightarrow> bool" where
  "connect w = (if \<not> src_connect w then False else if \<not> tgt_connect w then False else True)"

definition get_tables :: "world \<Rightarrow> connection \<Rightarrow> string list" where
  "get_tables w c =
     (case (case c of Source \<Rightarrow> src_show_tables w | Target \<Rightarrow> tgt_show_tables w) of
        Inl e \<Rightarrow> []
      | Inr tables \<Rightarrow> tables)"

definition get_table_structure :: "world \<Rightarrow> connection \<Rightarrow> string \<Rightarrow> column list" where
  "get_table_structure w c table_name =
     (case (case c of Source \<Rightarrow> src_show_columns w table_name | Target \<Rightarrow> tgt_show_columns w table_name) of
        Inl e \<Rightarrow> []
      | Inr columns \<Rightarrow> columns)"

text \<open>
  The dictionary \<open>different_structures\<close> is an association list from a table name to its
  \<open>(source, target)\<close> column lists, in insertion order. The loop runs over a set, so a
  table is inserted at most once.
\<close>

type_synonym structures = "(string \<times> column list \<times> column list) list"

primrec compare_tables :: "world \<Rightarrow> string list \<Rightarrow> structures \<Rightarrow> structures" where
  "compare_tables w [] different_structures = different_structures"
| "compare_tables w (table # tables) different_structures =
     (let source_structure = get_table_structure w Source table;
          target_structure = get_table_structure w Target table
      in compare_tables w tables
           (if source_structure \<noteq> target_structure
            then different_structures @ [(table, source_structure, target_structure)]
            else different_structures))"

text \<open>
  Python's \<open>set(...)\<close> has no specified iteration order. The model lists a set without
  repetition in one fixed order (\<open>remdups\<close>); the properties of the comparison below are
  stated on the sets of names, and those of the synchronisation for every order
  (\<open>sync_from\<close> takes the lists as arguments).
\<close>

definition compare_structures :: "world \<Rightarrow> string list \<times> string list \<times> structures" where
  "compare_structures w =
     (if \<not> connect w then ([], [], [])
      else
        let source_tables = remdups (get_tables w Source);
            target_tables = remdups (get_tables w Target);
            missing_in_source = filter (\<lambda>t. t \<notin> set source_tables) target_tables;
            missing_in_target = filter (\<lambda>t. t \<notin> set target_tables) source_tables;
            common_tables = filter (\<lambda>t. t \<in> set target_tables) source_tables
        in (missing_in_source, missing_in_target, compare_tables w common_tables []))"

section \<open>handle_dosen_tables\<close>

definition nl :: char where
  "nl = CHR 0x0A"

definition select_constraints :: string where
  "select_constraints =
     [nl] @
     ''                    SELECT CONSTRAINT_NAME'' @ [nl] @
     ''                    FROM information_schema.KEY_COLUMN_USAGE'' @ [nl] @
     ''                    WHERE TABLE_SCHEMA = DATABASE()'' @ [nl] @
     ''                    AND TABLE_NAME = '' @ [quote] @ ''dosen_wali_prodi'' @ [quote] @ [nl] @
     ''                    AND REFERENCED_TABLE_NAME IS NOT NULL'' @ [nl] @
     ''                ''"

definition select_index :: string where
  "select_index =
     [nl] @
     ''                    SELECT COUNT(1) '' @ [nl] @
     ''                    FROM information_schema.STATISTICS '' @ [nl] @
     ''                    WHERE TABLE_SCHEMA = DATABASE()'' @ [nl] @
     ''                    AND TABLE_NAME = '' @ [quote] @ ''dosen'' @ [quote] @ '' '' @ [nl] @
     ''                    AND INDEX_NAME = '' @ [quote] @ ''idx_dosen_nidn'' @ [quote] @ [nl] @
     ''                ''"

definition add_index_dosen :: string where
  "add_index_dosen =
     ''ALTER TABLE dosen ADD UNIQUE INDEX idx_dosen_nidn (nidn)''"

definition drop_dosen_wali_prodi :: string where
  "drop_dosen_wali_prodi =
     ''DROP TABLE IF EXISTS dosen_wali_prodi''"

definition create_dosen_wali_prodi :: string where
  "create_dosen_wali_prodi =
     [nl] @
     ''                CREATE TABLE dosen_wali_prodi ('' @ [nl] @
     ''                    id int NOT NULL AUTO_INCREMENT,'' @ [nl] @
     ''                    nidn varchar(20) CHARACTER SET latin1 COLLATE latin1_swedish_ci DEFAULT NULL,'' @ [nl] @
     ''                    prodi_id int DEFAULT NULL,'' @ [nl] @
     ''                    tahun_ajar varchar(9) DEFAULT NULL,'' @ [nl] @
     ''                    created_at datetime DEFAULT CURRENT_TIMESTAMP,'' @ [nl] @
     ''                    updated_at datetime DEFAULT CURRENT_TIMESTAMP ON UPDATE CURRENT_TIMESTAMP,'' @ [nl] @
     ''                    PRIMARY KEY (id),'' @ [nl] @
     ''                    UNIQUE KEY unique_prodi_tahun (prodi_id,tahun_ajar),'' @ [nl] @
     ''                    KEY nidn (nidn)'' @ [nl] @
     ''                ) ENGINE=InnoDB DEFAULT CHARSET=latin1'' @ [nl] @
     ''            ''"

definition fk_checks_off :: string where
  "fk_checks_off =
     ''SET FOREIGN_KEY_CHECKS=0''"

definition add_fk_dosen :: string where
  "add_fk_dosen =
     [nl] @
     ''                ALTER TABLE dosen_wali_prodi'' @ [nl] @
     ''                ADD CONSTRAINT dosen_wali_prodi_ibfk_1 '' @ [nl] @
     ''                FOREIGN KEY (nidn) REFERENCES dosen (nidn)'' @ [nl] @
     ''            ''"

definition add_fk_prodi :: string where
  "add_fk_prodi =
     [nl] @
     ''                ALTER TABLE dosen_wali_prodi'' @ [nl] @
     ''                ADD CONSTRAINT dosen_wali_prodi_ibfk_2 '' @ [nl] @
     ''                FOREIGN KEY (prodi_id) REFERENCES prodi (id_prodi)'' @ [nl] @
     ''            ''"

definition fk_checks_on :: string where
  "fk_checks_on =
     ''SET FOREIGN_KEY_CHECKS=1''"

definition drop_foreign_key :: "string \<Rightarrow> string" where
  "drop_foreign_key constraint_name =
     ''ALTER TABLE dosen_wali_prodi DROP FOREIGN KEY `'' @ constraint_name @ ''`''"

text \<open>Step 1. Any \<open>Error\<close> in the query or in a \<open>DROP FOREIGN KEY\<close> ends the step and is
  only logged.\<close>

fun drop_each :: "world \<Rightarrow> string list \<Rightarrow> event list \<Rightarrow> event list" where
  "drop_each w [] h = h"
| "drop_each w (constraint_name # constraints) h =
     (case run w h (Execute (drop_foreign_key constraint_name)) of
        (Some e, h') \<Rightarrow> h'
      | (None, h') \<Rightarrow> drop_each w constraints h')"

definition drop_constraints :: "world \<Rightarrow> event list \<Rightarrow> event list" where
  "drop_constraints w h =
     (case run w h (Execute select_constraints) of
        (Some e, h') \<Rightarrow> h'
      | (None, h') \<Rightarrow> drop_each w (src_constraints w h') h')"

text \<open>Step 2. An \<open>Error\<close> whose message does not contain \<open>Duplicate\<close> is raised again.\<close>

definition fix_dosen_index :: "world \<Rightarrow> event list \<Rightarrow> string option \<times> event list" where
  "fix_dosen_index w h =
     (case run w h (Execute select_index) of
        (Some e, h') \<Rightarrow> (if \<not> contains ''Duplicate'' e then (Some e, h') else (None, h'))
      | (None, h') \<Rightarrow>
          let index_exists = (src_index_count w h' > 0)
          in if \<not> index_exists
             then (case run w h' (Execute add_index_dosen) of
                     (Some e, h'') \<Rightarrow> (if \<not> contains ''Duplicate'' e then (Some e, h'') else (None, h''))
                   | (None, h'') \<Rightarrow> (None, h''))
             else (None, h'))"

text \<open>Steps 3 and 4 and the commit: a straight line of requests.\<close>

definition recreate_requests :: "request list" where
  "recreate_requests =
     [Execute drop_dosen_wali_prodi, Execute create_dosen_wali_prodi, Execute fk_checks_off,
      Execute add_fk_dosen, Execute add_fk_prodi, Execute fk_checks_on, Commit]"

text \<open>The handler, entered with history \<open>h\<close>: its return value and the history it leaves.\<close>

definition handle_dosen_tables :: "world \<Rightarrow> event list \<Rightarrow> bool \<times> event list" where
  "handle_dosen_tables w h =
     (case fix_dosen_index w (drop_constraints w h) of
        (Some e, h') \<Rightarrow> (False, rollback w h')
      | (None, h') \<Rightarrow>
          (case run_all w recreate_requests h' of
             (Some e, h'') \<Rightarrow> (False, rollback w h'')
           | (None, h'') \<Rightarrow> (True, h'')))"

section \<open>sync_structures\<close>

text \<open>
  The function body that runs is lines 199 to 312: both branches of its
  \<open>try\<close>/\<open>except\<close> return, so the two further copies of the routine that follow in the
  same body (lines 313 to 523) are never reached.

  How a block ends: normally, with a \<open>mysql.connector.Error\<close> on its way to the
  \<open>except Error\<close> of \<open>sync_structures\<close>, or with another exception (an unbound
  \<open>fk_stmt\<close>) that this handler does not catch.
\<close>

datatype flow = Done | Error string | Uncaught

text \<open>The local state of the loops: the history and the variable \<open>fk_stmt\<close>, which is
  unbound (\<open>None\<close>) until its first assignment and keeps its value between iterations.\<close>

type_synonym locals = "event list \<times> string option"

definition special :: "string \<Rightarrow> bool" where
  "special table = (table \<in> {''dosen'', ''dosen_wali_prodi''})"

text \<open>\<open>str.strip()\<close> removes the ASCII white space (tab to carriage return, the four
  separators \<open>0x1C\<close> to \<open>0x1F\<close>, and the space) at both ends.\<close>

definition is_space :: "char \<Rightarrow> bool" where
  "is_space c = (let n = (of_char c :: nat) in (9 \<le> n \<and> n \<le> 13) \<or> (28 \<le> n \<and> n \<le> 32))"

definition strip :: "string \<Rightarrow> string" where
  "strip s = rev (dropWhile is_space (rev (dropWhile is_space s)))"

text \<open>\<open>s.rsplit(')', 1)\<close>: the parts around the last \<open>)\<close>, or \<open>None\<close> when there is none
  (the list then has one element).\<close>

definition rsplit_paren :: "string \<Rightarrow> (string \<times> string) option" where
  "rsplit_paren s =
     (if CHR '')'' \<in> set s
      then Some (rev (tl (dropWhile (\<lambda>c. c \<noteq> CHR '')'') (rev s))),
                 rev (takeWhile (\<lambda>c. c \<noteq> CHR '')'') (rev s)))
      else None)"

definition clean_create :: "world \<Rightarrow> string \<Rightarrow> string" where
  "clean_create w create_stmt =
     (let create_stmt = re_sub_foreign_keys w create_stmt
      in case rsplit_paren create_stmt of
           Some (main_body, table_options) \<Rightarrow>
             main_body @ '') '' @ re_sub_auto_increment w (strip table_options)
         | None \<Rightarrow> create_stmt)"

definition fk_statement :: "string \<Rightarrow> string \<Rightarrow> string \<Rightarrow> string \<Rightarrow> string \<Rightarrow> string \<Rightarrow> string" where
  "fk_statement table col ref_table ref_col delete_rule update_rule =
     (let fk_stmt =
        [nl] @
        ''                                ALTER TABLE '' @ table @ [nl] @
        ''                                ADD CONSTRAINT `fk_'' @ table @ ''_'' @ ref_table @ ''_'' @ col @ ''`'' @ [nl] @
        ''                                FOREIGN KEY ('' @ col @ '')'' @ [nl] @
        ''                                REFERENCES '' @ ref_table @ ''('' @ ref_col @ '')'' @ [nl] @
        ''                            '';
          fk_stmt = (if delete_rule \<noteq> ''RESTRICT'' then fk_stmt @ '' ON DELETE '' @ delete_rule else fk_stmt);
          fk_stmt = (if update_rule \<noteq> ''RESTRICT'' then fk_stmt @ '' ON UPDATE '' @ update_rule else fk_stmt)
      in fk_stmt)"

text \<open>The \<open>except Error\<close> of the foreign-key loop: only a message containing
  \<open>Missing index\<close> is acted on, every other error is logged and dropped.\<close>

definition on_fk_error :: "world \<Rightarrow> string \<Rightarrow> string \<Rightarrow> string \<Rightarrow> locals \<Rightarrow> flow \<times> locals" where
  "on_fk_error w table col e s =
     (case s of (h, fk_stmt) \<Rightarrow>
        if contains ''Missing index'' e
        then (case run w h (Execute (''ALTER TABLE '' @ table @ '' ADD INDEX (`'' @ col @ ''`)'')) of
                (Some e', h') \<Rightarrow> (Error e', (h', fk_stmt))
              | (None, h') \<Rightarrow>
                  (case fk_stmt of
                     None \<Rightarrow> (Uncaught, (h', fk_stmt))
                   | Some stmt \<Rightarrow>
                       (case run w h' (Execute stmt) of
                          (Some e', h'') \<Rightarrow> (Error e', (h'', fk_stmt))
                        | (None, h'') \<Rightarrow> (Done, (h'', fk_stmt)))))
        else (Done, (h, fk_stmt)))"

definition add_foreign_key :: "world \<Rightarrow> string \<Rightarrow> fk_row \<Rightarrow> locals \<Rightarrow> flow \<times> locals" where
  "add_foreign_key w table row s =
     (case (row, s) of ((col, ref_table, ref_col, constraint_name), (h, fk_stmt)) \<Rightarrow>
        (case tgt_referential_rules w constraint_name of
           Inl e \<Rightarrow> on_fk_error w table col e (h, fk_stmt)
         | Inr fetched \<Rightarrow>
             (case (case fetched of None \<Rightarrow> (''RESTRICT'', ''RESTRICT'') | Some rules \<Rightarrow> rules) of
                (delete_rule, update_rule) \<Rightarrow>
                  let stmt = fk_statement table col ref_table ref_col delete_rule update_rule
                  in (case run w h (Execute stmt) of
                        (Some e, h') \<Rightarrow> on_fk_error w table col e (h', Some stmt)
                      | (None, h') \<Rightarrow> (Done, (h', Some stmt))))))"

fun add_foreign_keys :: "world \<Rightarrow> string \<Rightarrow> fk_row list \<Rightarrow> locals \<Rightarrow> flow \<times> locals" where
  "add_foreign_keys w table [] s = (Done, s)"
| "add_foreign_keys w table (row # rows) s =
     (case add_foreign_key w table row s of
        (Done, s') \<Rightarrow> add_foreign_keys w table rows s'
      | (Error e, s') \<Rightarrow> (Error e, s')
      | (Uncaught, s') \<Rightarrow> (Uncaught, s'))"

definition create_table :: "world \<Rightarrow> string \<Rightarrow> locals \<Rightarrow> flow \<times> locals" where
  "create_table w table s =
     (case s of (h, fk_stmt) \<Rightarrow>
        (case tgt_show_create_table w table of
           Inl e \<Rightarrow> (Error e, (h, fk_stmt))
         | Inr create_stmt \<Rightarrow>
             (case run w h (Execute (clean_create w create_stmt)) of
                (Some e, h') \<Rightarrow> (Error e, (h', fk_stmt))
              | (None, h') \<Rightarrow>
                  (case tgt_key_column_usage w table of
                     Inl e \<Rightarrow> (Error e, (h', fk_stmt))
                   | Inr rows \<Rightarrow> add_foreign_keys w table rows (h', fk_stmt)))))"

fun create_missing :: "world \<Rightarrow> string list \<Rightarrow> locals \<Rightarrow> flow \<times> locals" where
  "create_missing w [] s = (Done, s)"
| "create_missing w (table # tables) s =
     (if \<not> special table
      then (case create_table w table s of
              (Done, s') \<Rightarrow> create_missing w tables s'
            | (Error e, s') \<Rightarrow> (Error e, s')
            | (Uncaught, s') \<Rightarrow> (Uncaught, s'))
      else create_missing w tables s)"

datatype result = Returns bool | Raises

text \<open>The part of \<open>sync_structures\<close> after the handler: the loop over the missing tables,
  then \<open>SET FOREIGN_KEY_CHECKS=1\<close> and the commit.\<close>

definition finish_sync :: "world \<Rightarrow> string list \<Rightarrow> event list \<Rightarrow> result \<times> event list" where
  "finish_sync w missing_in_source h =
     (case create_missing w missing_in_source (h, None) of
        (Error e, (h', fk_stmt)) \<Rightarrow> (Returns False, rollback w h')
      | (Uncaught, (h', fk_stmt)) \<Rightarrow> (Raises, h')
      | (Done, (h', fk_stmt)) \<Rightarrow>
          (case run_all w [Execute fk_checks_on, Commit] h' of
             (Some e, h'') \<Rightarrow> (Returns False, rollback w h'')
           | (None, h'') \<Rightarrow> (Returns True, h'')))"

definition implicated :: "string list \<Rightarrow> structures \<Rightarrow> bool" where
  "implicated missing_in_source different_structures =
     ((\<exists>table \<in> set missing_in_source. special table) \<or>
      (\<exists>table \<in> set (map fst different_structures). special table))"

text \<open>The \<open>try\<close> block of \<open>sync_structures\<close> on a fresh pair of connections, for given
  results of the comparison.\<close>

definition sync_from :: "world \<Rightarrow> string list \<Rightarrow> structures \<Rightarrow> result \<times> event list" where
  "sync_from w missing_in_source different_structures =
     (case run w [] (Execute fk_checks_off) of
        (Some e, h) \<Rightarrow> (Returns False, rollback w h)
      | (None, h) \<Rightarrow>
          if implicated missing_in_source different_structures
          then (case handle_dosen_tables w h of
                  (False, h') \<Rightarrow> (Returns False, h')
                | (True, h') \<Rightarrow> finish_sync w missing_in_source h')
          else finish_sync w missing_in_source h)"

definition sync_structures :: "world \<Rightarrow> result \<times> event list" where
  "sync_structures w =
     (case compare_structures w of
        (missing_in_source, missing_in_target, different_structures) \<Rightarrow>
          if \<not> (missing_in_source \<noteq> [] \<or> different_structures \<noteq> [])
          then (Returns True, [])
          else sync_from w missing_in_source different_structures)"

section \<open>Reading a history\<close>

text \<open>
  The statements that succeeded, in order.
\<close>

definition executed :: "event list \<Rightarrow> string list" where
  "executed h = concat (map (\<lambda>ev. case ev of (Execute q, None) \<Rightarrow> [q] | _ \<Rightarrow> []) h)"

text \<open>A stretch of history in which every request is a statement (no commit, no rollback).\<close>

definition statements_only :: "event list \<Rightarrow> bool" where
  "statements_only h = list_all (\<lambda>ev. case fst ev of Execute q \<Rightarrow> True | Commit \<Rightarrow> False | Rollback \<Rightarrow> False) h"



text \<open>
  The session flag \<open>FOREIGN_KEY_CHECKS\<close> after a history: on at the start of a session,
  and set by each \<open>SET FOREIGN_KEY_CHECKS\<close> statement that succeeded. It is a session
  variable, not part of a transaction.
\<close>

fun fk_checks :: "event list \<Rightarrow> bool \<Rightarrow> bool" where
  "fk_checks [] b = b"
| "fk_checks ((r, a) # h) b =
     fk_checks h (if (r, a) = (Execute fk_checks_off, None) then False
                  else if (r, a) = (Execute fk_checks_on, None) then True else b)"

section \<open>Example columns\<close>




definition ex_note :: column where
  "ex_note = \<lparr>col_Field = ''note'', col_Type = ''TEXT'', col_Null = ''YES'',
     col_Key = [], col_Default = Some (''it'' @ [quote] @ ''s''), col_Extra = []\<rparr>"



definition plain :: "string \<Rightarrow> string \<Rightarrow> column" where
  "plain f ty = \<lparr>col_Field = f, col_Type = ty, col_Null = ''YES'',
     col_Key = [], col_Default = None, col_Extra = []\<rparr>"

section \<open>Example worlds\<close>

text \<open>Both servers reachable and empty, every request succeeds; the regular-expression
  substitutions find nothing to delete.\<close>

definition world0 :: world where
  "world0 = \<lparr>src_connect = True, tgt_connect = True,
     src_show_tables = Inr [], tgt_show_tables = Inr [],
     src_show_columns = (\<lambda>t. Inr []), tgt_show_columns = (\<lambda>t. Inr []),
     src_answer = (\<lambda>h r. None), src_constraints = (\<lambda>h. []), src_index_count = (\<lambda>h. 0),
     tgt_show_create_table = (\<lambda>t. Inr (''CREATE TABLE '' @ t @ '' (id int)'')),
     tgt_key_column_usage = (\<lambda>t. Inr []), tgt_referential_rules = (\<lambda>c. Inr None),
     re_sub_foreign_keys = (\<lambda>s. s), re_sub_auto_increment = (\<lambda>s. s)\<rparr>"

text \<open>The source has \<open>users\<close> and \<open>logs\<close>, the target \<open>users\<close> and \<open>orders\<close>; the target's
  \<open>users\<close> has one more column.\<close>

definition world_users :: world where
  "world_users = world0\<lparr>
     src_show_tables := Inr [''users'', ''logs''], tgt_show_tables := Inr [''users'', ''orders''],
     src_show_columns := (\<lambda>t. Inr (if t = ''users'' then [plain ''id'' ''int''] else [])),
     tgt_show_columns := (\<lambda>t. Inr (if t = ''users''
        then [plain ''id'' ''int'', plain ''email'' ''varchar(50)''] else []))\<rparr>"

text \<open>Both sides have the single table \<open>users\<close>; only its columns differ.\<close>

definition world_drift :: world where
  "world_drift = world_users\<lparr>src_show_tables := Inr [''users''], tgt_show_tables := Inr [''users'']\<rparr>"

definition world_source_down :: world where
  "world_source_down = world_users\<lparr>src_connect := False\<rparr>"

definition world_target_down :: world where
  "world_target_down = world_users\<lparr>tgt_connect := False\<rparr>"

text \<open>The source is empty; the target has the special table \<open>dosen\<close> and a table \<open>orders\<close>.\<close>

definition world_roster :: world where
  "world_roster = world0\<lparr>tgt_show_tables := Inr [''dosen'', ''orders'']\<rparr>"





section \<open>Properties of generate_alter_statements\<close>

lemma contains_sublist: "contains sub s = sublist sub s"
  by (induction s) (auto simp: sublist_Cons_right)

lemma add_missing_columns_eq:
  "add_missing_columns t N cols acc =
     acc @ map (add_column_stmt t) (filter (\<lambda>c. col_Field c \<notin> N) cols)"
  by (induction cols arbitrary: acc) simp_all

lemma generate_alter_statements_eq:
  "generate_alter_statements t src tgt =
     map (add_column_stmt t) (filter (\<lambda>c. col_Field c \<notin> col_Field ` set src) tgt)"
  by (simp add: generate_alter_statements_def add_missing_columns_eq)

lemma timestamp_not_char:
  "\<not> contains ''char'' ''timestamp''" "\<not> contains ''text'' ''timestamp''"
  "\<not> contains ''char'' ''datetime''" "\<not> contains ''text'' ''datetime''"
  by simp_all

lemma head_of_stmt:
  "add_column_stmt t col =
     ''ALTER TABLE '' @ t @ '' ADD COLUMN '' @ col_Field col @ '' '' @ col_Type col
       @ (if col_Null col = ''NO'' then '' NOT NULL'' else []) @ default_clause col"
  by (simp add: add_column_stmt_def)

section \<open>Case folding in the code is the case-insensitive comparison\<close>


















section \<open>Theorems about generate_alter_statements\<close>





text \<open>
  C9. For a target column that is added, whose lower-cased type contains \<open>char\<close> or
  \<open>text\<close> and whose default is not \<open>None\<close>, the \<open>DEFAULT\<close> clause is the default value
  copied character for character between two single quotes: nothing is escaped, so a single
  quote inside the default value appears as it is in the statement.
\<close>

theorem default_quote_unescaped:
  assumes "col \<in> set target_cols"
    and "col_Field col \<notin> col_Field ` set source_cols"
    and "col_Default col = Some (d1 @ [quote] @ d2)"
    and "contains ''char'' (lower (col_Type col)) \<or> contains ''text'' (lower (col_Type col))"
  shows "add_column_stmt t col \<in> set (generate_alter_statements t source_cols target_cols) \<and>
    default_clause col = '' DEFAULT '' @ [quote] @ d1 @ [quote] @ d2 @ [quote] \<and>
    add_column_stmt t col =
      ''ALTER TABLE '' @ t @ '' ADD COLUMN '' @ col_Field col @ '' '' @ col_Type col
        @ (if col_Null col = ''NO'' then '' NOT NULL'' else [])
        @ '' DEFAULT '' @ [quote] @ d1 @ [quote] @ d2 @ [quote]"
proof -
  have "lower (col_Type col) \<noteq> ''timestamp''" "lower (col_Type col) \<noteq> ''datetime''"
    using assms(4) timestamp_not_char by metis+
  then have clause: "default_clause col = '' DEFAULT '' @ [quote] @ d1 @ [quote] @ d2 @ [quote]"
    using assms(3,4) by (simp add: default_clause_def)
  have "add_column_stmt t col \<in> set (generate_alter_statements t source_cols target_cols)"
    using assms(1,2) by (simp add: generate_alter_statements_eq)
  then show ?thesis
    using clause by (simp add: head_of_stmt)
qed

theorem default_quote_unescaped_witness:
  "ex_note \<in> set [ex_note] \<and> col_Field ex_note \<notin> col_Field ` set [] \<and>
   col_Default ex_note = Some (''it'' @ [quote] @ ''s'') \<and>
   contains ''text'' (lower (col_Type ex_note)) \<and>
   generate_alter_statements ''t'' [] [ex_note] =
     [''ALTER TABLE t ADD COLUMN note TEXT DEFAULT '' @ [quote] @ ''it'' @ [quote] @ ''s'' @ [quote]]"
proof -
  have ty: "lower (col_Type ex_note) = ''text''" by code_simp
  have gen: "generate_alter_statements ''t'' [] [ex_note] = [add_column_stmt ''t'' ex_note]"
    by (simp add: generate_alter_statements_def)
  show ?thesis
    using default_quote_unescaped [of ex_note "[ex_note]" "[]" "''it''" "''s''" "''t''"] ty gen
    by (simp add: ex_note_def)
qed

section \<open>Properties of compare_structures\<close>

lemma compare_tables_eq:
  "compare_tables w tables ds =
     ds @ map (\<lambda>t. (t, get_table_structure w Source t, get_table_structure w Target t))
            (filter (\<lambda>t. get_table_structure w Source t \<noteq> get_table_structure w Target t) tables)"
  by (induction tables arbitrary: ds) (simp_all add: Let_def)

lemma compare_users:
  "compare_structures world_users =
     ([''orders''], [''logs''],
      [(''users'', [plain ''id'' ''int''], [plain ''id'' ''int'', plain ''email'' ''varchar(50)''])])"
  by (simp add: compare_structures_def connect_def world_users_def world0_def get_tables_def
      get_table_structure_def plain_def)

lemma compare_drift:
  "compare_structures world_drift =
     ([], [], [(''users'', [plain ''id'' ''int''], [plain ''id'' ''int'', plain ''email'' ''varchar(50)''])])"
  by (simp add: compare_structures_def connect_def world_drift_def world_users_def world0_def
      get_tables_def get_table_structure_def plain_def)

lemma connect_users: "connect world_users"
  by (simp add: connect_def world_users_def world0_def)

lemma tables_users:
  "get_tables world_users Source = [''users'', ''logs'']"
  "get_tables world_users Target = [''users'', ''orders'']"
  by (simp_all add: get_tables_def world_users_def world0_def)

lemma structure_users:
  "get_table_structure world_users Source ''users'' = [plain ''id'' ''int'']"
  "get_table_structure world_users Target ''users'' = [plain ''id'' ''int'', plain ''email'' ''varchar(50)'']"
  by (simp_all add: get_table_structure_def world_users_def world0_def)

lemma drift_answer: "src_answer world_drift = (\<lambda>h r. None)"
  by (simp add: world_drift_def world_users_def world0_def)

text \<open>
  C7. When the connections are established, with \<open>S\<close> and \<open>T\<close> the sets of table names
  that \<open>get_tables\<close> returns for the source and the target, \<open>compare_structures\<close> returns
  \<open>missing_in_source = T - S\<close> and \<open>missing_in_target = S - T\<close>; both are disjoint from the
  common set \<open>S \<inter> T\<close>, and the column comparison reports tables of the common set only.
\<close>

theorem table_set_differences:
  assumes "connect w"
    and "S = set (get_tables w Source)"
    and "T = set (get_tables w Target)"
    and "compare_structures w = (missing_in_source, missing_in_target, different_structures)"
  shows "set missing_in_source = T - S \<and> set missing_in_target = S - T \<and>
         set missing_in_source \<inter> (S \<inter> T) = {} \<and> set missing_in_target \<inter> (S \<inter> T) = {} \<and>
         fst ` set different_structures \<subseteq> S \<inter> T"
  using assms by (auto simp add: compare_structures_def Let_def compare_tables_eq)

theorem table_set_differences_witness:
  "connect world_users \<and>
   set [''orders''] = set (get_tables world_users Target) - set (get_tables world_users Source) \<and>
   set [''logs''] = set (get_tables world_users Source) - set (get_tables world_users Target) \<and>
   set [''orders''] \<inter> (set (get_tables world_users Source) \<inter> set (get_tables world_users Target)) = {}"
  using table_set_differences [OF connect_users refl refl compare_users] connect_users
  by blast

text \<open>
  C8. When the connections are established, a table common to both sides is a key of the
  \<open>different_structures\<close> result exactly when its two ordered column lists are not equal
  as lists of descriptors (so any difference of order or of a field of a column puts it
  there, and equal lists never do), and it then carries both full lists.
\<close>

theorem different_iff_unequal:
  assumes "connect w"
    and "table \<in> set (get_tables w Source) \<inter> set (get_tables w Target)"
    and "compare_structures w = (missing_in_source, missing_in_target, different_structures)"
  shows "(table \<in> fst ` set different_structures \<longleftrightarrow>
            get_table_structure w Source table \<noteq> get_table_structure w Target table) \<and>
         (get_table_structure w Source table \<noteq> get_table_structure w Target table \<longrightarrow>
            map_of different_structures table =
              Some (get_table_structure w Source table, get_table_structure w Target table))"
proof -
  let ?common = "filter (\<lambda>t. t \<in> set (remdups (get_tables w Target))) (remdups (get_tables w Source))"
  let ?diff = "filter (\<lambda>t. get_table_structure w Source t \<noteq> get_table_structure w Target t) ?common"
  have ds: "different_structures =
      map (\<lambda>t. (t, get_table_structure w Source t, get_table_structure w Target t)) ?diff"
    using assms(1,3) by (simp add: compare_structures_def Let_def compare_tables_eq)
  have common: "table \<in> set ?common" using assms(2) by simp
  have keys: "fst ` set different_structures = set ?diff"
    unfolding ds by (simp add: image_image)
  have iff: "table \<in> fst ` set different_structures \<longleftrightarrow>
      get_table_structure w Source table \<noteq> get_table_structure w Target table"
    unfolding keys using common by simp
  have look: "map_of different_structures table =
      (if table \<in> set ?diff
       then Some (get_table_structure w Source table, get_table_structure w Target table) else None)"
    unfolding ds by (simp add: map_of_map_restrict restrict_map_def)
  show ?thesis using iff look keys by simp
qed

theorem different_iff_unequal_witness:
  "connect world_users \<and>
   ''users'' \<in> set (get_tables world_users Source) \<inter> set (get_tables world_users Target) \<and>
   get_table_structure world_users Source ''users'' \<noteq> get_table_structure world_users Target ''users'' \<and>
   map_of (snd (snd (compare_structures world_users))) ''users'' =
     Some ([plain ''id'' ''int''], [plain ''id'' ''int'', plain ''email'' ''varchar(50)''])"
proof -
  have mem: "''users'' \<in> set (get_tables world_users Source) \<inter> set (get_tables world_users Target)"
    by (simp add: tables_users)
  have ne: "get_table_structure world_users Source ''users'' \<noteq> get_table_structure world_users Target ''users''"
    by (simp add: structure_users)
  show ?thesis
    using different_iff_unequal [OF connect_users mem compare_users] mem ne connect_users
    by (simp add: compare_users structure_users)
qed

section \<open>Theorems about sync_structures\<close>

text \<open>
  C1 (the code at a failing input). Source and target both have the table \<open>users\<close>, and
  the target's \<open>users\<close> has the extra column \<open>email\<close>. The comparison reports the table,
  \<open>generate_alter_statements\<close> would add the column, but \<open>sync_structures\<close> only switches
  the foreign-key checks off and on, commits and returns \<open>True\<close>: the \<open>ALTER TABLE\<close>
  statement is not executed.
\<close>

theorem alter_statements_not_executed:
  "compare_structures world_drift =
     ([], [], [(''users'', [plain ''id'' ''int''], [plain ''id'' ''int'', plain ''email'' ''varchar(50)''])]) \<and>
   generate_alter_statements ''users'' [plain ''id'' ''int''] [plain ''id'' ''int'', plain ''email'' ''varchar(50)'']
     = [''ALTER TABLE users ADD COLUMN email varchar(50)''] \<and>
   sync_structures world_drift =
     (Returns True, [(Execute fk_checks_off, None), (Execute fk_checks_on, None), (Commit, None)]) \<and>
   executed (snd (sync_structures world_drift)) = [fk_checks_off, fk_checks_on]"
proof -
  have gen: "generate_alter_statements ''users'' [plain ''id'' ''int''] [plain ''id'' ''int'', plain ''email'' ''varchar(50)'']
     = [''ALTER TABLE users ADD COLUMN email varchar(50)'']"
    by (simp add: generate_alter_statements_def add_column_stmt_def default_clause_def plain_def)
  have run: "sync_structures world_drift =
     (Returns True, [(Execute fk_checks_off, None), (Execute fk_checks_on, None), (Commit, None)])"
    by (simp add: sync_structures_def compare_drift sync_from_def run_def implicated_def special_def
        finish_sync_def drift_answer)
  have ex: "executed (snd (sync_structures world_drift)) = [fk_checks_off, fk_checks_on]"
    unfolding run by (simp add: executed_def)
  show ?thesis using compare_drift gen run ex by simp
qed

theorem alter_statements_not_executed_witness:
  "fst (sync_structures world_drift) = Returns True \<and>
   ''ALTER TABLE users ADD COLUMN email varchar(50)'' \<notin> set (executed (snd (sync_structures world_drift)))"
  using alter_statements_not_executed by (simp add: fk_checks_off_def fk_checks_on_def executed_def)

text \<open>
  C2 (as the claim states it, refuted). With the source server unreachable, \<open>connect\<close>
  fails and \<open>sync_structures\<close> still returns \<open>True\<close>.
\<close>

theorem connect_failure_counterexample:
  "\<not> connect world_source_down \<and> fst (sync_structures world_source_down) = Returns True"
  by (simp add: sync_structures_def compare_structures_def connect_def world_source_down_def
      world_users_def world0_def)

text \<open>
  C2 (amended). When establishing either connection fails, \<open>connect\<close> returns failure,
  \<open>compare_structures\<close> returns three empty results, and \<open>sync_structures\<close> issues no
  request at all on the source connection; it returns \<open>True\<close>, as for an empty difference.
\<close>

theorem connect_failure_is_empty_diff:
  assumes "\<not> (src_connect w \<and> tgt_connect w)"
  shows "\<not> connect w \<and> compare_structures w = ([], [], []) \<and> sync_structures w = (Returns True, [])"
  using assms by (auto simp add: sync_structures_def compare_structures_def connect_def)

theorem connect_failure_is_empty_diff_witness:
  "\<not> (src_connect world_target_down \<and> tgt_connect world_target_down) \<and>
   \<not> connect world_target_down \<and> sync_structures world_target_down = (Returns True, [])"
proof -
  have down: "\<not> (src_connect world_target_down \<and> tgt_connect world_target_down)"
    by (simp add: world_target_down_def)
  show ?thesis using connect_failure_is_empty_diff [OF down] down by simp
qed

section \<open>Histories of the handler and of the synchronisation\<close>

lemma flag_distinct:
  "drop_foreign_key c \<noteq> fk_checks_off" "drop_foreign_key c \<noteq> fk_checks_on"
  "select_constraints \<noteq> fk_checks_off" "select_constraints \<noteq> fk_checks_on"
  "select_index \<noteq> fk_checks_off" "select_index \<noteq> fk_checks_on"
  "add_index_dosen \<noteq> fk_checks_off" "add_index_dosen \<noteq> fk_checks_on"
  "drop_dosen_wali_prodi \<noteq> fk_checks_off" "drop_dosen_wali_prodi \<noteq> fk_checks_on"
  "create_dosen_wali_prodi \<noteq> fk_checks_off" "create_dosen_wali_prodi \<noteq> fk_checks_on"
  "add_fk_dosen \<noteq> fk_checks_off" "add_fk_dosen \<noteq> fk_checks_on"
  "add_fk_prodi \<noteq> fk_checks_off" "add_fk_prodi \<noteq> fk_checks_on"
  "fk_checks_off \<noteq> fk_checks_on" "fk_checks_on \<noteq> fk_checks_off"
  by (simp_all add: drop_foreign_key_def fk_checks_off_def fk_checks_on_def select_constraints_def
      select_index_def add_index_dosen_def drop_dosen_wali_prodi_def create_dosen_wali_prodi_def
      add_fk_dosen_def add_fk_prodi_def nl_def)

lemma fk_checks_append: "fk_checks (h1 @ h2) b = fk_checks h2 (fk_checks h1 b)"
  by (induction h1 arbitrary: b) auto

lemma fk_checks_snoc:
  "fk_checks (h @ [ev]) b =
     (if ev = (Execute fk_checks_off, None) then False
      else if ev = (Execute fk_checks_on, None) then True else fk_checks h b)"
  by (cases ev) (simp add: fk_checks_append)



lemma statements_only_append [simp]:
  "statements_only (a @ b) = (statements_only a \<and> statements_only b)"
  by (simp add: statements_only_def)

lemma statements_only_simps [simp]:
  "statements_only []" "statements_only ((Execute q, a) # h) = statements_only h"
  "\<not> statements_only ((Commit, a) # h)" "\<not> statements_only ((Rollback, a) # h)"
  by (simp_all add: statements_only_def)


lemma drop_each_ext: "\<exists>ext. drop_each w cs h = h @ ext \<and> statements_only ext"
proof (induction cs arbitrary: h)
  case Nil
  then show ?case by simp
next
  case (Cons c cs)
  show ?case
  proof (cases "src_answer w h (Execute (drop_foreign_key c))")
    case None
    obtain ext where "drop_each w cs (h @ [(Execute (drop_foreign_key c), None)]) =
        (h @ [(Execute (drop_foreign_key c), None)]) @ ext" "statements_only ext"
      using Cons.IH by blast
    then show ?thesis using None by (simp add: run_def)
  next
    case (Some e)
    then show ?thesis by (simp add: run_def)
  qed
qed

lemma drop_each_fk: "fk_checks (drop_each w cs h) b = fk_checks h b"
proof (induction cs arbitrary: h)
  case Nil
  then show ?case by simp
next
  case (Cons c cs)
  show ?case
    by (cases "src_answer w h (Execute (drop_foreign_key c))")
       (simp_all add: run_def Cons.IH fk_checks_append flag_distinct)
qed

lemma drop_constraints_ext: "\<exists>ext. drop_constraints w h = h @ ext \<and> statements_only ext"
proof (cases "src_answer w h (Execute select_constraints)")
  case None
  obtain ext where "drop_each w (src_constraints w (h @ [(Execute select_constraints, None)]))
      (h @ [(Execute select_constraints, None)]) = (h @ [(Execute select_constraints, None)]) @ ext"
      "statements_only ext"
    using drop_each_ext by blast
  then show ?thesis using None by (simp add: drop_constraints_def run_def)
next
  case (Some e)
  then show ?thesis by (simp add: drop_constraints_def run_def)
qed

lemma drop_constraints_fk: "fk_checks (drop_constraints w h) b = fk_checks h b"
  by (cases "src_answer w h (Execute select_constraints)")
     (simp_all add: drop_constraints_def run_def drop_each_fk fk_checks_append flag_distinct)

lemma fix_dosen_index_ext:
  "fix_dosen_index w h = (r, h') \<Longrightarrow> \<exists>ext. h' = h @ ext \<and> statements_only ext"
  by (auto simp add: fix_dosen_index_def run_def Let_def split: option.splits if_splits)

lemma fix_dosen_index_fk:
  "fix_dosen_index w h = (r, h') \<Longrightarrow> fk_checks h' b = fk_checks h b"
  by (auto simp add: fix_dosen_index_def run_def Let_def fk_checks_append flag_distinct
      split: option.splits if_splits)

lemma run_all_ok:
  "run_all w rs h = (None, h') \<Longrightarrow> h' = h @ map (\<lambda>r. (r, None)) rs"
proof (induction rs arbitrary: h)
  case Nil
  then show ?case by simp
next
  case (Cons r rs)
  from Cons.prems have ok: "src_answer w h r = None"
    by (simp add: run_def split: option.splits)
  with Cons.prems have "run_all w rs (h @ [(r, None)]) = (None, h')"
    by (simp add: run_def)
  then have "h' = (h @ [(r, None)]) @ map (\<lambda>r. (r, None)) rs"
    by (rule Cons.IH)
  then show ?case by simp
qed

lemma run_one: "run w h r = (a, h') \<Longrightarrow> h' = h @ [(r, a)] \<and> a = src_answer w h r"
  by (auto simp add: run_def)

lemma rollback_snoc: "rollback w h = h @ [(Rollback, src_answer w h Rollback)]"
  by (simp add: rollback_def run_def)





lemma handler_prelude:
  obtains r pre where "fix_dosen_index w (drop_constraints w h) = (r, h @ pre)"
    and "statements_only pre" and "\<And>b. fk_checks (h @ pre) b = fk_checks h b"
proof -
  obtain e1 where e1: "drop_constraints w h = h @ e1" "statements_only e1"
    using drop_constraints_ext by blast
  obtain r h' where fx: "fix_dosen_index w (drop_constraints w h) = (r, h')"
    by (cases "fix_dosen_index w (drop_constraints w h)")
  obtain e2 where e2: "h' = drop_constraints w h @ e2" "statements_only e2"
    using fix_dosen_index_ext [OF fx] by blast
  have fk: "fk_checks h' b = fk_checks h b" for b
    using fix_dosen_index_fk [OF fx] drop_constraints_fk by simp
  show ?thesis
  proof (rule that [of r "e1 @ e2"])
    show "fix_dosen_index w (drop_constraints w h) = (r, h @ e1 @ e2)"
      using fx e1 e2 by simp
    show "statements_only (e1 @ e2)" using e1 e2 by simp
    show "fk_checks (h @ e1 @ e2) b = fk_checks h b" for b
      using fk e1 e2 by simp
  qed
qed

lemma handler_success:
  assumes "handle_dosen_tables w h = (True, h')"
  shows "\<exists>pre. h' = h @ pre @ map (\<lambda>r. (r, None)) recreate_requests \<and> statements_only pre"
proof -
  obtain r pre where p: "fix_dosen_index w (drop_constraints w h) = (r, h @ pre)" "statements_only pre"
    using handler_prelude by blast
  from assms p have r: "r = None"
    by (cases r) (simp_all add: handle_dosen_tables_def)
  from assms p r have "run_all w recreate_requests (h @ pre) = (None, h')"
    by (auto simp add: handle_dosen_tables_def split: prod.splits option.splits)
  then have "h' = (h @ pre) @ map (\<lambda>r. (r, None)) recreate_requests"
    by (rule run_all_ok)
  then show ?thesis using p by auto
qed



lemma on_fk_error_ext:
  "on_fk_error w table col e (h, fk) = (f, (h', fk')) \<Longrightarrow> \<exists>ext. h' = h @ ext \<and> statements_only ext"
  by (auto simp add: on_fk_error_def run_def split: if_splits option.splits)

lemma add_foreign_key_ext:
  assumes "add_foreign_key w table row (h, fk) = (f, (h', fk'))"
  shows "\<exists>ext. h' = h @ ext \<and> statements_only ext"
proof -
  obtain col ref_table ref_col constraint_name where row: "row = (col, ref_table, ref_col, constraint_name)"
    by (cases row)
  show ?thesis
  proof (cases "tgt_referential_rules w constraint_name")
    case (Inl e)
    then show ?thesis
      using assms row on_fk_error_ext by (simp add: add_foreign_key_def)
  next
    case (Inr fetched)
    obtain delete_rule update_rule where rules:
      "(case fetched of None \<Rightarrow> (''RESTRICT'', ''RESTRICT'') | Some rules \<Rightarrow> rules) = (delete_rule, update_rule)"
      by (cases "case fetched of None \<Rightarrow> (''RESTRICT'', ''RESTRICT'') | Some rules \<Rightarrow> rules")
    define stmt where "stmt = fk_statement table col ref_table ref_col delete_rule update_rule"
    show ?thesis
    proof (cases "src_answer w h (Execute stmt)")
      case None
      then have "h' = h @ [(Execute stmt, None)]"
        using assms row Inr rules by (simp add: add_foreign_key_def run_def stmt_def Let_def)
      then show ?thesis by simp
    next
      case (Some e)
      then have "on_fk_error w table col e (h @ [(Execute stmt, Some e)], Some stmt) = (f, (h', fk'))"
        using assms row Inr rules by (simp add: add_foreign_key_def run_def stmt_def Let_def)
      then obtain ext where "h' = (h @ [(Execute stmt, Some e)]) @ ext" "statements_only ext"
        using on_fk_error_ext by blast
      then have "h' = h @ ((Execute stmt, Some e) # ext) \<and> statements_only ((Execute stmt, Some e) # ext)"
        by simp
      then show ?thesis by blast
    qed
  qed
qed

lemma add_foreign_keys_ext:
  "add_foreign_keys w table rows (h, fk) = (f, (h', fk')) \<Longrightarrow> \<exists>ext. h' = h @ ext \<and> statements_only ext"
proof (induction rows arbitrary: h fk)
  case Nil
  then show ?case by simp
next
  case (Cons row rows)
  obtain f1 h1 fk1 where one: "add_foreign_key w table row (h, fk) = (f1, (h1, fk1))"
    by (cases "add_foreign_key w table row (h, fk)") auto
  obtain e1 where e1: "h1 = h @ e1" "statements_only e1"
    using add_foreign_key_ext [OF one] by blast
  show ?case
  proof (cases f1)
    case Done
    then have "add_foreign_keys w table rows (h1, fk1) = (f, (h', fk'))"
      using Cons.prems one by simp
    then obtain e2 where "h' = h1 @ e2" "statements_only e2"
      using Cons.IH by blast
    then have "h' = h @ (e1 @ e2) \<and> statements_only (e1 @ e2)" using e1 by simp
    then show ?thesis by blast
  next
    case (Error e)
    then have "h' = h1" using Cons.prems one by simp
    then show ?thesis using e1 by blast
  next
    case Uncaught
    then have "h' = h1" using Cons.prems one by simp
    then show ?thesis using e1 by blast
  qed
qed

lemma create_table_ext:
  assumes "create_table w table (h, fk) = (f, (h', fk'))"
  shows "\<exists>ext. h' = h @ ext \<and> statements_only ext"
proof (cases "tgt_show_create_table w table")
  case (Inl e)
  then have "h' = h @ []" using assms by (simp add: create_table_def)
  then show ?thesis by (metis statements_only_simps(1))
next
  case (Inr create_stmt)
  define q where "q = clean_create w create_stmt"
  show ?thesis
  proof (cases "src_answer w h (Execute q)")
    case (Some e)
    then have "h' = h @ [(Execute q, Some e)]"
      using assms Inr by (simp add: create_table_def run_def q_def)
    then show ?thesis by simp
  next
    case None
    show ?thesis
    proof (cases "tgt_key_column_usage w table")
      case (Inl e)
      then have "h' = h @ [(Execute q, None)]"
        using assms Inr None by (simp add: create_table_def run_def q_def)
      then show ?thesis by simp
    next
      case (Inr rows)
      then have "add_foreign_keys w table rows (h @ [(Execute q, None)], fk) = (f, (h', fk'))"
        using assms \<open>tgt_show_create_table w table = Inr create_stmt\<close> None
        by (simp add: create_table_def run_def q_def)
      then obtain ext where "h' = (h @ [(Execute q, None)]) @ ext" "statements_only ext"
        using add_foreign_keys_ext by blast
      then have "h' = h @ ((Execute q, None) # ext) \<and> statements_only ((Execute q, None) # ext)"
        by simp
      then show ?thesis by blast
    qed
  qed
qed

lemma create_missing_ext:
  "create_missing w tables (h, fk) = (f, (h', fk')) \<Longrightarrow> \<exists>ext. h' = h @ ext \<and> statements_only ext"
proof (induction tables arbitrary: h fk)
  case Nil
  then have "h' = h @ []" by simp
  then show ?case by (metis statements_only_simps(1))
next
  case (Cons table tables)
  show ?case
  proof (cases "special table")
    case True
    then show ?thesis using Cons by simp
  next
    case False
    obtain f1 h1 fk1 where one: "create_table w table (h, fk) = (f1, (h1, fk1))"
      by (cases "create_table w table (h, fk)") auto
    obtain e1 where e1: "h1 = h @ e1" "statements_only e1"
      using create_table_ext [OF one] by blast
    show ?thesis
    proof (cases f1)
      case Done
      then have "create_missing w tables (h1, fk1) = (f, (h', fk'))"
        using Cons.prems one False by simp
      then obtain e2 where "h' = h1 @ e2" "statements_only e2"
        using Cons.IH by blast
      then have "h' = h @ (e1 @ e2) \<and> statements_only (e1 @ e2)" using e1 by simp
      then show ?thesis by blast
    next
      case (Error e)
      then have "h' = h1" using Cons.prems one False by simp
      then show ?thesis using e1 by blast
    next
      case Uncaught
      then have "h' = h1" using Cons.prems one False by simp
      then show ?thesis using e1 by blast
    qed
  qed
qed

lemma finish_sync_ext:
  assumes "finish_sync w m h = (r, h')"
  shows "\<exists>ext. h' = h @ ext"
proof -
  obtain f h1 fk1 where cm: "create_missing w m (h, None) = (f, (h1, fk1))"
    by (cases "create_missing w m (h, None)") auto
  obtain e1 where e1: "h1 = h @ e1" using create_missing_ext [OF cm] by blast
  show ?thesis
    using assms cm e1
    by (cases f) (auto simp add: finish_sync_def rollback_snoc run_def split: option.splits)
qed


lemma roster_fields:
  "src_answer world_roster = (\<lambda>h r. None)" "src_constraints world_roster = (\<lambda>h. [])"
  "src_index_count world_roster = (\<lambda>h. 0)"
  "tgt_show_create_table world_roster = (\<lambda>t. Inr (''CREATE TABLE '' @ t @ '' (id int)''))"
  "tgt_key_column_usage world_roster = (\<lambda>t. Inr [])"
  "re_sub_foreign_keys world_roster = (\<lambda>s. s)" "re_sub_auto_increment world_roster = (\<lambda>s. s)"
  by (simp_all add: world_roster_def world0_def)

lemma compare_roster:
  "compare_structures world_roster = ([''dosen'', ''orders''], [], [])"
  by (simp add: compare_structures_def connect_def world_roster_def world0_def get_tables_def)

lemma implicated_roster: "implicated [''dosen'', ''orders''] []"
  by (simp add: implicated_def special_def)

lemma clean_orders: "clean_create world_roster ''CREATE TABLE orders (id int)'' = ''CREATE TABLE orders (id int) ''"
  by (simp add: clean_create_def rsplit_paren_def strip_def roster_fields)

lemma handler_roster:
  "handle_dosen_tables world_roster [(Execute fk_checks_off, None)] =
    (True, [(Execute fk_checks_off, None), (Execute select_constraints, None), (Execute select_index, None),
       (Execute add_index_dosen, None), (Execute drop_dosen_wali_prodi, None),
       (Execute create_dosen_wali_prodi, None), (Execute fk_checks_off, None), (Execute add_fk_dosen, None),
       (Execute add_fk_prodi, None), (Execute fk_checks_on, None), (Commit, None)])"
  by (simp add: handle_dosen_tables_def drop_constraints_def fix_dosen_index_def run_def
      recreate_requests_def roster_fields)

lemma finish_roster:
  "finish_sync world_roster [''dosen'', ''orders''] h =
     (Returns True, h @ [(Execute ''CREATE TABLE orders (id int) '', None), (Execute fk_checks_on, None), (Commit, None)])"
  by (simp add: finish_sync_def special_def create_table_def clean_orders run_def roster_fields)

lemma sync_roster:
  "sync_structures world_roster =
    (Returns True, [(Execute fk_checks_off, None), (Execute select_constraints, None), (Execute select_index, None),
       (Execute add_index_dosen, None), (Execute drop_dosen_wali_prodi, None),
       (Execute create_dosen_wali_prodi, None), (Execute fk_checks_off, None), (Execute add_fk_dosen, None),
       (Execute add_fk_prodi, None), (Execute fk_checks_on, None), (Commit, None),
       (Execute ''CREATE TABLE orders (id int) '', None), (Execute fk_checks_on, None), (Commit, None)])"
proof -
  have first: "run world_roster [] (Execute fk_checks_off) = (None, [(Execute fk_checks_off, None)])"
    by (simp add: run_def roster_fields)
  have "sync_structures world_roster = sync_from world_roster [''dosen'', ''orders''] []"
    by (simp add: sync_structures_def compare_roster)
  also have "\<dots> = finish_sync world_roster [''dosen'', ''orders'']
      (snd (handle_dosen_tables world_roster [(Execute fk_checks_off, None)]))"
    unfolding sync_from_def first using implicated_roster by (simp add: handler_roster)
  also have "\<dots> = (Returns True, [(Execute fk_checks_off, None), (Execute select_constraints, None), (Execute select_index, None),
       (Execute add_index_dosen, None), (Execute drop_dosen_wali_prodi, None),
       (Execute create_dosen_wali_prodi, None), (Execute fk_checks_off, None), (Execute add_fk_dosen, None),
       (Execute add_fk_prodi, None), (Execute fk_checks_on, None), (Commit, None),
       (Execute ''CREATE TABLE orders (id int) '', None), (Execute fk_checks_on, None), (Commit, None)])"
    unfolding handler_roster finish_roster by simp
  finally show ?thesis .
qed


lemma sync_is_sync_from:
  assumes "compare_structures w = (m, t, d)" and "m \<noteq> [] \<or> d \<noteq> []"
  shows "sync_structures w = sync_from w m d"
  using assms by (auto simp add: sync_structures_def)

lemma implicated_nonempty: "implicated m d \<Longrightarrow> m \<noteq> [] \<or> d \<noteq> []"
  by (auto simp add: implicated_def)

lemma first_ok_roster: "src_answer world_roster [] (Execute fk_checks_off) = None"
  by (simp add: roster_fields)

















section \<open>Theorems about the special-case handler and failed runs\<close>




text \<open>
  C4. In a run whose comparison involves \<open>dosen\<close> or \<open>dosen_wali_prodi\<close> (as a missing
  table or as a key of the different structures), once the initial
  \<open>SET FOREIGN_KEY_CHECKS=0\<close> has succeeded the handler runs next, on the history that
  holds only that statement. If it returns success, its history ends with the fixed
  sequence \<open>DROP TABLE IF EXISTS dosen_wali_prodi\<close>, the hardcoded \<open>CREATE TABLE\<close>, the two
  \<open>ADD CONSTRAINT\<close> statements between the switching of the checks, and the commit, all
  successful and whatever the difference was, and the rest of the run only extends that
  history. If it returns failure, \<open>sync_structures\<close> returns \<open>False\<close> with the handler's
  history unchanged: no generic table handling takes place.
\<close>

theorem special_case_handler_first:
  assumes "compare_structures w = (missing_in_source, missing_in_target, different_structures)"
    and "implicated missing_in_source different_structures"
    and "src_answer w [] (Execute fk_checks_off) = None"
    and "handle_dosen_tables w [(Execute fk_checks_off, None)] = (ok, hh)"
  shows "(ok \<longrightarrow>
           (\<exists>pre. statements_only pre \<and>
              hh = [(Execute fk_checks_off, None)] @ pre @
                [(Execute drop_dosen_wali_prodi, None), (Execute create_dosen_wali_prodi, None),
                 (Execute fk_checks_off, None), (Execute add_fk_dosen, None), (Execute add_fk_prodi, None),
                 (Execute fk_checks_on, None), (Commit, None)]) \<and>
           (\<exists>rest. snd (sync_structures w) = hh @ rest)) \<and>
         (\<not> ok \<longrightarrow> sync_structures w = (Returns False, hh))"
proof -
  let ?h0 = "[(Execute fk_checks_off, None)]"
  have r0: "run w [] (Execute fk_checks_off) = (None, ?h0)" using assms(3) by (simp add: run_def)
  have sf: "sync_structures w = sync_from w missing_in_source different_structures"
    using sync_is_sync_from [OF assms(1) implicated_nonempty [OF assms(2)]] .
  show ?thesis
  proof (cases ok)
    case False
    then show ?thesis using sf r0 assms(2,4) by (simp add: sync_from_def)
  next
    case True
    then have hdT: "handle_dosen_tables w ?h0 = (True, hh)" using assms(4) by simp
    obtain pre where pre: "hh = ?h0 @ pre @ map (\<lambda>r. (r, None)) recreate_requests" "statements_only pre"
      using handler_success [OF hdT] by blast
    have run: "sync_structures w = finish_sync w missing_in_source hh"
      using sf r0 assms(2,4) True by (simp add: sync_from_def)
    obtain r h' where fin: "finish_sync w missing_in_source hh = (r, h')"
      by (cases "finish_sync w missing_in_source hh")
    obtain rest where "h' = hh @ rest" using finish_sync_ext [OF fin] by blast
    then have "\<exists>rest. snd (sync_structures w) = hh @ rest" using run fin by simp
    then show ?thesis using True pre by (simp add: recreate_requests_def)
  qed
qed

theorem special_case_handler_first_witness:
  "implicated [''dosen'', ''orders''] [] \<and>
   src_answer world_roster [] (Execute fk_checks_off) = None \<and>
   fst (handle_dosen_tables world_roster [(Execute fk_checks_off, None)]) \<and>
   (\<exists>rest. snd (sync_structures world_roster) =
      snd (handle_dosen_tables world_roster [(Execute fk_checks_off, None)]) @ rest)"
  using special_case_handler_first [OF compare_roster implicated_roster first_ok_roster handler_roster]
    implicated_roster first_ok_roster
  by (simp add: handler_roster)




end
